theory Spec2Isabelle
  imports Main
begin

section \<open>JavaScript values\<close>

text \<open>
  The values that flow through \<^verbatim>\<open>src/lib/data-cloud-query-service.js\<close> and
  \<^verbatim>\<open>src/lib/sql/queries.js\<close>: filter values, SQL text, result rows, response
  envelopes. An object is its list of own enumerable data properties in the order
  \<^verbatim>\<open>Object.entries\<close> reports them; a well-formed object has pairwise distinct keys.
  \<open>JNum\<close> carries an integer-valued number in the range where JavaScript prints it in
  plain decimal notation; fractions, \<^verbatim>\<open>NaN\<close> and infinities are outside the model.
  A \<open>string\<close> is the sequence of code units of the JavaScript string; the characters
  the escaping routine looks at are all below 128.
\<close>

datatype jsval =
    JUndefined
  | JNull
  | JBool bool
  | JNum int
  | JStr string
  | JArr "jsval list"
  | JObj "(string \<times> jsval) list"

text \<open>
  Thrown values are \<^verbatim>\<open>Error\<close> objects, of which the code reads \<^verbatim>\<open>err.message\<close>
  only. \<open>Error\<close> is raised by the program or by a collaborator, \<open>TypeError\<close> by the
  language itself (the wording of those messages is the engine's).
\<close>

datatype js_error = Error string | TypeError string

fun message :: "js_error \<Rightarrow> string" where
  "message (Error m) = m"
| "message (TypeError m) = m"

definition bind_res :: "'e + 'a \<Rightarrow> ('a \<Rightarrow> 'e + 'b) \<Rightarrow> 'e + 'b" where
  "bind_res m f = (case m of Inl e \<Rightarrow> Inl e | Inr x \<Rightarrow> f x)"

abbreviation SQ :: char where "SQ \<equiv> CHR 0x27"
abbreviation BSL :: char where "BSL \<equiv> CHR 0x5C"

fun truthy :: "jsval \<Rightarrow> bool" where
  "truthy JUndefined = False"
| "truthy JNull = False"
| "truthy (JBool b) = b"
| "truthy (JNum n) = (n \<noteq> 0)"
| "truthy (JStr s) = (s \<noteq> [])"
| "truthy (JArr xs) = True"
| "truthy (JObj kvs) = True"

fun typeof :: "jsval \<Rightarrow> string" where
  "typeof JUndefined = ''undefined''"
| "typeof JNull = ''object''"
| "typeof (JBool b) = ''boolean''"
| "typeof (JNum n) = ''number''"
| "typeof (JStr s) = ''string''"
| "typeof (JArr xs) = ''object''"
| "typeof (JObj kvs) = ''object''"

text \<open>\<^verbatim>\<open>Array.prototype.join\<close> on a list of strings.\<close>

fun join_str :: "string \<Rightarrow> string list \<Rightarrow> string" where
  "join_str sep [] = []"
| "join_str sep [x] = x"
| "join_str sep (x # y # ys) = x @ sep @ join_str sep (y # ys)"

definition digit_char :: "nat \<Rightarrow> char" where
  "digit_char d = ''0123456789'' ! d"

fun digits :: "nat \<Rightarrow> string" where
  "digits n = (if n < 10 then [digit_char n] else digits (n div 10) @ [digit_char (n mod 10)])"

declare digits.simps [simp del]

text \<open>
  \<^verbatim>\<open>String(value)\<close>: an array prints its elements separated by commas, with
  \<^verbatim>\<open>null\<close> and \<^verbatim>\<open>undefined\<close> elements printed as nothing.
\<close>

fun js_String :: "jsval \<Rightarrow> string" where
  "js_String JUndefined = ''undefined''"
| "js_String JNull = ''null''"
| "js_String (JBool b) = (if b then ''true'' else ''false'')"
| "js_String (JNum n) = (if n < 0 then ''-'' @ digits (nat (- n)) else digits (nat n))"
| "js_String (JStr s) = s"
| "js_String (JArr xs) =
     join_str '','' (map (\<lambda>x. case x of JUndefined \<Rightarrow> [] | JNull \<Rightarrow> [] | _ \<Rightarrow> js_String x) xs)"
| "js_String (JObj kvs) = ''[object Object]''"

definition read_error :: "jsval \<Rightarrow> string \<Rightarrow> js_error" where
  "read_error v k =
     TypeError (''Cannot read properties of '' @ js_String v @ '' (reading '' @ [SQ] @ k @ [SQ] @ '')'')"

text \<open>
  \<open>own_prop\<close> reads a property of a plain object and \<open>cell\<close> an element of an
  array; both give \<^verbatim>\<open>undefined\<close> for what is not there.
  \<^verbatim>\<open>value.key\<close> is modelled for a key that is an identifier and not a property inherited from
  a prototype, apart from \<^verbatim>\<open>length\<close>. Reading a property of \<^verbatim>\<open>null\<close> or
  \<^verbatim>\<open>undefined\<close> throws.
\<close>

definition own_prop :: "(string \<times> jsval) list \<Rightarrow> string \<Rightarrow> jsval" where
  "own_prop kvs k = (case map_of kvs k of Some v \<Rightarrow> v | None \<Rightarrow> JUndefined)"

definition cell :: "jsval list \<Rightarrow> nat \<Rightarrow> jsval" where
  "cell xs i = (if i < length xs then xs ! i else JUndefined)"

fun js_get :: "jsval \<Rightarrow> string \<Rightarrow> js_error + jsval" where
  "js_get JUndefined k = Inl (read_error JUndefined k)"
| "js_get JNull k = Inl (read_error JNull k)"
| "js_get (JObj kvs) k = Inr (own_prop kvs k)"
| "js_get (JArr xs) k = Inr (if k = ''length'' then JNum (int (length xs)) else JUndefined)"
| "js_get (JStr s) k = Inr (if k = ''length'' then JNum (int (length s)) else JUndefined)"
| "js_get (JBool b) k = Inr JUndefined"
| "js_get (JNum n) k = Inr JUndefined"

text \<open>\<^verbatim>\<open>value[i]\<close> for a literal index \<open>i\<close>.\<close>

fun js_index :: "jsval \<Rightarrow> nat \<Rightarrow> js_error + jsval" where
  "js_index JUndefined i = Inl (read_error JUndefined (digits i))"
| "js_index JNull i = Inl (read_error JNull (digits i))"
| "js_index (JArr xs) i = Inr (cell xs i)"
| "js_index (JStr s) i = Inr (if i < length s then JStr [s ! i] else JUndefined)"
| "js_index (JObj kvs) i = Inr (own_prop kvs (digits i))"
| "js_index (JBool b) i = Inr JUndefined"
| "js_index (JNum n) i = Inr JUndefined"

fun map_res :: "('a \<Rightarrow> 'e + 'b) \<Rightarrow> 'a list \<Rightarrow> 'e + 'b list" where
  "map_res f [] = Inr []"
| "map_res f (x # xs) =
     bind_res (f x) (\<lambda>y. bind_res (map_res f xs) (\<lambda>ys. Inr (y # ys)))"

text \<open>\<^verbatim>\<open>records.map(callback)\<close>: only an array has the method.\<close>

definition js_map :: "jsval \<Rightarrow> (jsval \<Rightarrow> js_error + jsval) \<Rightarrow> js_error + jsval" where
  "js_map records cb =
     (case records of
        JArr xs \<Rightarrow> bind_res (map_res cb xs) (\<lambda>ys. Inr (JArr ys))
      | JUndefined \<Rightarrow> Inl (read_error JUndefined ''map'')
      | JNull \<Rightarrow> Inl (read_error JNull ''map'')
      | _ \<Rightarrow> Inl (TypeError ''records.map is not a function''))"

section \<open>The query objects of \<^verbatim>\<open>src/lib/sql/queries.js\<close>\<close>

text \<open>
  The sources hold the module twice. The model follows the copy that defines
  \<^verbatim>\<open>escapeSqlString\<close>, which is the one the test suite imports; the other copy
  builds the same query from the raw filter values.
\<close>

subsection \<open>\<^verbatim>\<open>unifiedB2BQuery.escapeSqlString\<close>\<close>

text \<open>\<^verbatim>\<open>s.replace(/c/g, r)\<close> for a single character \<open>c\<close>.\<close>

definition replace_all :: "char \<Rightarrow> string \<Rightarrow> string \<Rightarrow> string" where
  "replace_all c r s = concat (map (\<lambda>x. if x = c then r else [x]) s)"

definition escapeSqlString :: "jsval \<Rightarrow> string" where
  "escapeSqlString v =
     (if typeof v \<noteq> ''string'' then js_String v
      else
        replace_all (CHR 0x1A) [BSL, CHR ''Z'']
          (replace_all (CHR 0x0D) [BSL, CHR ''r'']
            (replace_all (CHR 0x0A) [BSL, CHR ''n'']
              (replace_all (CHR 0x00) []
                (replace_all BSL [BSL, BSL]
                  (replace_all SQ [SQ, SQ] (js_String v)))))))"

text \<open>
  The escaping as the specification words it: the value is first coerced to its string
  representation, and the six replacements are then applied to that string, in order.
\<close>

definition six_replacements :: "string \<Rightarrow> string" where
  "six_replacements s =
     replace_all (CHR 0x1A) [BSL, CHR ''Z'']
       (replace_all (CHR 0x0D) [BSL, CHR ''r'']
         (replace_all (CHR 0x0A) [BSL, CHR ''n'']
           (replace_all (CHR 0x00) []
             (replace_all BSL [BSL, BSL]
               (replace_all SQ [SQ, SQ] s)))))"

definition escape_spec :: "jsval \<Rightarrow> string" where
  "escape_spec v = six_replacements (js_String v)"

subsection \<open>\<^verbatim>\<open>unifiedB2BQuery.buildQuery\<close> and \<^verbatim>\<open>transform\<close>\<close>

definition baseSql :: string where
  "baseSql = ''SELECT ssot__Name__c, ssot__Number__c, ssot__AccountSource__c, ssot__AccountTypeId__c, ssot__CreatedDate__c, ssot__LastModifiedDate__c, ssot__ParentAccountId__c, ssot__Id__c FROM UnifiedssotAccountB2b__dlm''"

text \<open>
  \<^verbatim>\<open>buildQuery(filters = {})\<close>: a call without argument passes \<open>JUndefined\<close>, which
  the default parameter replaces by the empty object. \<open>whereConditions\<close> grows by
  \<^verbatim>\<open>push\<close>, the query by \<^verbatim>\<open>+=\<close>.
\<close>

definition unifiedB2B_buildQuery :: "jsval \<Rightarrow> js_error + jsval" where
  "unifiedB2B_buildQuery arg =
     (let filters = (if arg = JUndefined then JObj [] else arg);
          whereConditions0 = [] in
      bind_res (js_get filters ''accountName'') (\<lambda>accountName.
      let whereConditions1 =
            (if truthy accountName
             then whereConditions0 @
                  [''ssot__Name__c LIKE '' @ [SQ] @ ''%'' @ escapeSqlString accountName @ ''%'' @ [SQ]]
             else whereConditions0) in
      bind_res (js_get filters ''accountSource'') (\<lambda>accountSource.
      let whereConditions2 =
            (if truthy accountSource
             then whereConditions1 @
                  [''ssot__AccountSource__c = '' @ [SQ] @ escapeSqlString accountSource @ [SQ]]
             else whereConditions1) in
      bind_res (js_get filters ''segment'') (\<lambda>segment.
      let whereConditions3 =
            (if truthy segment
             then whereConditions2 @
                  [''ssot__AccountTypeId__c = '' @ [SQ] @ escapeSqlString segment @ [SQ]]
             else whereConditions2);
          query0 = baseSql;
          query1 = (if length whereConditions3 > 0
                    then query0 @ '' WHERE '' @ join_str '' AND '' whereConditions3
                    else query0);
          query2 = query1 @ '' LIMIT 100'' in
      Inr (JStr query2)))))"

definition unifiedB2B_record :: "jsval \<Rightarrow> js_error + jsval" where
  "unifiedB2B_record record =
     bind_res (js_index record 0) (\<lambda>v0.
     bind_res (js_index record 1) (\<lambda>v1.
     bind_res (js_index record 2) (\<lambda>v2.
     bind_res (js_index record 3) (\<lambda>v3.
     bind_res (js_index record 4) (\<lambda>v4.
     bind_res (js_index record 5) (\<lambda>v5.
     bind_res (js_index record 6) (\<lambda>v6.
     bind_res (js_index record 7) (\<lambda>v7.
     Inr (JObj [(''name'', v0), (''number'', v1), (''accountSource'', v2),
                (''accountTypeId'', v3), (''createdDate'', v4), (''lastModifiedDate'', v5),
                (''parentAccountId'', v6), (''id'', v7)])))))))))"

definition unifiedB2B_transform :: "jsval \<Rightarrow> js_error + jsval" where
  "unifiedB2B_transform records = js_map records unifiedB2B_record"

subsection \<open>\<^verbatim>\<open>userEngagementQuery\<close>\<close>

definition userEngagement_record :: "jsval \<Rightarrow> js_error + jsval" where
  "userEngagement_record record =
     bind_res (js_index record 0) (\<lambda>v0.
     bind_res (js_index record 1) (\<lambda>v1.
     bind_res (js_index record 2) (\<lambda>v2.
     bind_res (js_index record 3) (\<lambda>v3.
     bind_res (js_index record 4) (\<lambda>v4.
     Inr (JObj [(''clientSession'', v0), (''createdDate'', v1), (''entityType'', v2),
                (''eventIdentifier'', v3), (''eventName'', v4)]))))))"

definition userEngagement_transform :: "jsval \<Rightarrow> js_error + jsval" where
  "userEngagement_transform records = js_map records userEngagement_record"

definition userEngagement_sql :: string where
  "userEngagement_sql =
     ''SELECT '' @ [CHR 0x0A] @
     ''    ClientSession__c, '' @ [CHR 0x0A] @
     ''    CreatedDate__c, '' @ [CHR 0x0A] @
     ''    EntityType__c, '' @ [CHR 0x0A] @
     ''    EventIdentifier__c, '' @ [CHR 0x0A] @
     ''    EventName__c'' @ [CHR 0x0A] @
     ''  FROM UserEngagement__dlm '' @ [CHR 0x0A] @
     ''  LIMIT 100''"

subsection \<open>Query objects as the service sees them\<close>

text \<open>
  The service looks at three properties of a query object: \<^verbatim>\<open>buildQuery\<close> (\<open>None\<close>
  when \<^verbatim>\<open>typeof queryObject.buildQuery\<close> is not \<^verbatim>\<open>'function'\<close>), \<^verbatim>\<open>sql\<close>
  (\<open>JUndefined\<close> when absent) and \<^verbatim>\<open>transform\<close>. The functions of a query object
  are pure: they may throw, they do not write to their argument.
\<close>

record query_object =
  buildQuery :: "(jsval \<Rightarrow> js_error + jsval) option"
  sql :: jsval
  transform :: "jsval \<Rightarrow> js_error + jsval"

definition unifiedB2BQuery :: query_object where
  "unifiedB2BQuery =
     \<lparr>buildQuery = Some unifiedB2B_buildQuery, sql = JUndefined, transform = unifiedB2B_transform\<rparr>"

definition userEngagementQuery :: query_object where
  "userEngagementQuery =
     \<lparr>buildQuery = None, sql = JStr userEngagement_sql, transform = userEngagement_transform\<rparr>"

section \<open>\<^verbatim>\<open>DataCloudQueryService\<close>\<close>

subsection \<open>Collaborators and instance state\<close>

text \<open>
  The authenticated context offers \<^verbatim>\<open>dataCloudApi.query(sql)\<close>, which resolves to a
  response or rejects. The environment holds what the service cannot decide:
  \<open>getAuthorization n name\<close> is the outcome of invocation number \<open>n\<close> (counting from
  zero) of \<^verbatim>\<open>appLinkSdk.applink.getAuthorization(name)\<close>, \<open>now\<close> is what
  \<^verbatim>\<open>new Date().toISOString()\<close> returns. An authorization resolves to an object
  that has \<^verbatim>\<open>dataCloudApi.query\<close>; the methods of the logger record their message
  and return. Calls on one instance run one after the other; interleaved calls are
  outside the model.
\<close>

record dc_context =
  dataCloudApi_query :: "jsval \<Rightarrow> js_error + jsval"

record env =
  getAuthorization :: "nat \<Rightarrow> string \<Rightarrow> js_error + dc_context"
  now :: string

text \<open>
  The instance fields \<^verbatim>\<open>dcConnectionName\<close> and \<^verbatim>\<open>_dataCloudContext\<close>
  (\<open>None\<close> for \<^verbatim>\<open>null\<close>), together with the observable effects on the two
  collaborators passed to the constructor: how often \<^verbatim>\<open>getAuthorization\<close> has been
  invoked, and what the logger has received.
\<close>

record service =
  dcConnectionName :: string
  dataCloudContext :: "dc_context option"
  authCalls :: nat
  logged :: "(string \<times> string) list"

definition new_service :: "string \<Rightarrow> service" where
  "new_service name = \<lparr>dcConnectionName = name, dataCloudContext = None, authCalls = 0, logged = []\<rparr>"

definition log_info :: "string \<Rightarrow> service \<Rightarrow> service" where
  "log_info m s = s\<lparr>logged := logged s @ [(''info'', m)]\<rparr>"

definition log_error :: "string \<Rightarrow> service \<Rightarrow> service" where
  "log_error m s = s\<lparr>logged := logged s @ [(''error'', m)]\<rparr>"

subsection \<open>\<^verbatim>\<open>getDataCloudContext\<close>\<close>

text \<open>
  When \<^verbatim>\<open>await getAuthorization(...)\<close> rejects, the assignment to
  \<^verbatim>\<open>this._dataCloudContext\<close> does not happen.
\<close>

definition getDataCloudContext :: "env \<Rightarrow> service \<Rightarrow> (js_error + dc_context) \<times> service" where
  "getDataCloudContext env s =
     (case dataCloudContext s of
        Some ctx \<Rightarrow> (Inr ctx, s)
      | None \<Rightarrow>
          let s1 = log_info (''Getting Data Cloud connection for '' @ [SQ] @ dcConnectionName s
                             @ [SQ] @ ''...'') s;
              s2 = s1\<lparr>authCalls := Suc (authCalls s1)\<rparr>
          in (case getAuthorization env (authCalls s1) (dcConnectionName s1) of
                Inl e \<Rightarrow> (Inl e, s2)
              | Inr ctx \<Rightarrow> (Inr ctx, s2\<lparr>dataCloudContext := Some ctx\<rparr>)))"

subsection \<open>\<^verbatim>\<open>executeQuery\<close>\<close>

text \<open>The \<^verbatim>\<open>if / else if / else throw\<close> that resolves the SQL text.\<close>

definition resolve_query :: "query_object \<Rightarrow> jsval \<Rightarrow> js_error + jsval" where
  "resolve_query queryObject filters =
     (case buildQuery queryObject of
        Some build \<Rightarrow> build filters
      | None \<Rightarrow>
          if truthy (sql queryObject) then Inr (sql queryObject)
          else Inl (Error ''Query object must have either sql property or buildQuery method''))"

text \<open>The body of the \<^verbatim>\<open>try\<close> block: \<open>Inl\<close> is the value thrown inside it.\<close>

definition executeQuery_try ::
  "env \<Rightarrow> query_object \<Rightarrow> jsval \<Rightarrow> service \<Rightarrow> (js_error + jsval) \<times> service" where
  "executeQuery_try env queryObject filters s =
     (case getDataCloudContext env s of
        (Inl e, s1) \<Rightarrow> (Inl e, s1)
      | (Inr ctx, s1) \<Rightarrow>
          (case resolve_query queryObject filters of
             Inl e \<Rightarrow> (Inl e, s1)
           | Inr query \<Rightarrow>
               let s2 = log_info (''Executing Data Cloud query: '' @ js_String query) s1
               in (bind_res (dataCloudApi_query ctx query) (\<lambda>response.
                   bind_res (js_get response ''data'') (\<lambda>data.
                   bind_res (transform queryObject (if truthy data then data else JArr []))
                     (\<lambda>transformedRecords.
                   bind_res (js_get transformedRecords ''length'') (\<lambda>totalRecords.
                   Inr (JObj [(''success'', JBool True),
                              (''records'', transformedRecords),
                              (''metadata'',
                                 JObj [(''totalRecords'', totalRecords),
                                       (''query'', query),
                                       (''filters'', filters),
                                       (''executedAt'', JStr (now env))])]))))), s2)))"

text \<open>
  The fallback query of the \<^verbatim>\<open>catch\<close> block: \<^verbatim>\<open>fallbackQuery\<close> is declared
  without a value, so it stays \<^verbatim>\<open>undefined\<close> when neither branch assigns it.
\<close>

definition fallbackQuery :: "query_object \<Rightarrow> jsval" where
  "fallbackQuery queryObject =
     (case (case buildQuery queryObject of
              Some build \<Rightarrow> build JUndefined
            | None \<Rightarrow> Inr (if truthy (sql queryObject) then sql queryObject else JUndefined)) of
        Inl buildErr \<Rightarrow> JStr ''Query build failed''
      | Inr q \<Rightarrow> q)"

text \<open>
  \<^verbatim>\<open>executeQuery(queryObject, filters = {})\<close>. The result is \<open>Inr\<close> when the promise
  resolves and \<open>Inl\<close> when it rejects.
\<close>

definition executeQuery ::
  "env \<Rightarrow> query_object \<Rightarrow> jsval \<Rightarrow> service \<Rightarrow> (js_error + jsval) \<times> service" where
  "executeQuery env queryObject arg s =
     (let filters = (if arg = JUndefined then JObj [] else arg)
      in case executeQuery_try env queryObject filters s of
           (Inr result, s1) \<Rightarrow> (Inr result, s1)
         | (Inl err, s1) \<Rightarrow>
             let s2 = log_error (''Error executing Data Cloud query: '' @ message err) s1
             in (Inr (JObj [(''success'', JBool False),
                            (''error'', JStr ''Failed to execute Data Cloud query''),
                            (''message'', JStr (message err)),
                            (''query'', fallbackQuery queryObject),
                            (''filters'', filters)]), s2))"

subsection \<open>\<^verbatim>\<open>executeRawQuery\<close>\<close>

definition executeRawQuery_try ::
  "env \<Rightarrow> jsval \<Rightarrow> (jsval \<Rightarrow> js_error + jsval) option \<Rightarrow> service
     \<Rightarrow> (js_error + jsval) \<times> service" where
  "executeRawQuery_try env sqlText transformFn s =
     (case getDataCloudContext env s of
        (Inl e, s1) \<Rightarrow> (Inl e, s1)
      | (Inr ctx, s1) \<Rightarrow>
          let s2 = log_info (''Executing raw Data Cloud query: '' @ js_String sqlText) s1
          in (bind_res (dataCloudApi_query ctx sqlText) (\<lambda>response.
              bind_res (js_get response ''data'') (\<lambda>data.
              bind_res (case transformFn of
                          Some f \<Rightarrow> f (if truthy data then data else JArr [])
                        | None \<Rightarrow> Inr (if truthy data then data else JArr []))
                (\<lambda>records.
              bind_res (js_get records ''length'') (\<lambda>totalRecords.
              Inr (JObj [(''success'', JBool True),
                         (''records'', records),
                         (''metadata'',
                            JObj [(''totalRecords'', totalRecords),
                                  (''query'', sqlText),
                                  (''executedAt'', JStr (now env))])]))))), s2))"

definition executeRawQuery ::
  "env \<Rightarrow> jsval \<Rightarrow> (jsval \<Rightarrow> js_error + jsval) option \<Rightarrow> service
     \<Rightarrow> (js_error + jsval) \<times> service" where
  "executeRawQuery env sqlText transformFn s =
     (case executeRawQuery_try env sqlText transformFn s of
        (Inr result, s1) \<Rightarrow> (Inr result, s1)
      | (Inl err, s1) \<Rightarrow>
          let s2 = log_error (''Error executing raw Data Cloud query: '' @ message err) s1
          in (Inr (JObj [(''success'', JBool False),
                         (''error'', JStr ''Failed to execute raw Data Cloud query''),
                         (''message'', JStr (message err)),
                         (''query'', sqlText)]), s2))"

subsection \<open>\<^verbatim>\<open>cleanFilters\<close> and \<^verbatim>\<open>executeQueryWithFilters\<close>\<close>

text \<open>
  \<^verbatim>\<open>Object.entries(value)\<close>: the own enumerable properties, which for an array or
  a string are its indexed elements; \<^verbatim>\<open>null\<close> and \<^verbatim>\<open>undefined\<close> throw.
\<close>

fun Object_entries :: "jsval \<Rightarrow> js_error + (string \<times> jsval) list" where
  "Object_entries JUndefined = Inl (TypeError ''Cannot convert undefined or null to object'')"
| "Object_entries JNull = Inl (TypeError ''Cannot convert undefined or null to object'')"
| "Object_entries (JObj kvs) = Inr kvs"
| "Object_entries (JArr xs) = Inr (map (\<lambda>i. (digits i, xs ! i)) [0..<length xs])"
| "Object_entries (JStr s) = Inr (map (\<lambda>i. (digits i, JStr [s ! i])) [0..<length s])"
| "Object_entries (JBool b) = Inr []"
| "Object_entries (JNum n) = Inr []"

text \<open>Writing an own property: overwrite in place, or append.\<close>

fun own_set :: "(string \<times> jsval) list \<Rightarrow> string \<Rightarrow> jsval \<Rightarrow> (string \<times> jsval) list" where
  "own_set [] k v = [(k, v)]"
| "own_set ((k', v') # kvs) k v = (if k' = k then (k, v) # kvs else (k', v') # own_set kvs k v)"

text \<open>
  \<^verbatim>\<open>object[key] = value\<close> on an object created by \<^verbatim>\<open>{}\<close>. Such an object
  inherits the accessor \<^verbatim>\<open>__proto__\<close> from \<^verbatim>\<open>Object.prototype\<close>, so an
  assignment to that key runs the setter and creates no own property: a value that is
  not an object is ignored, and an object value becomes the prototype of the target,
  which a list of own properties does not show. Every other key writes an own property.
\<close>

definition obj_set :: "(string \<times> jsval) list \<Rightarrow> string \<Rightarrow> jsval \<Rightarrow> (string \<times> jsval) list" where
  "obj_set kvs k v = (if k = ''__proto__'' then kvs else own_set kvs k v)"

text \<open>
  Objects live in a store, addressed by their position in it, so that the object
  \<^verbatim>\<open>cleanFilters\<close> creates and writes to can be told apart from every object that
  existed before. The loop writes to the object at address \<open>cleanedFilters\<close> only.
\<close>

type_synonym store = "(string \<times> jsval) list list"

fun cleanFilters_loop :: "(string \<times> jsval) list \<Rightarrow> nat \<Rightarrow> store \<Rightarrow> store" where
  "cleanFilters_loop [] cleanedFilters h = h"
| "cleanFilters_loop ((key, value) # rest) cleanedFilters h =
     (if value \<noteq> JUndefined \<and> value \<noteq> JNull \<and> value \<noteq> JStr []
      then cleanFilters_loop rest cleanedFilters
             (h[cleanedFilters := obj_set (h ! cleanedFilters) key value])
      else cleanFilters_loop rest cleanedFilters h)"


text \<open>
  \<^verbatim>\<open>cleanFilters\<close> from value to value, for any argument: the same loop, run in a
  store that holds the fresh object alone.
\<close>

definition cleanFilters :: "jsval \<Rightarrow> js_error + jsval" where
  "cleanFilters filters =
     bind_res (Object_entries filters) (\<lambda>entries.
     Inr (JObj (cleanFilters_loop entries 0 [[]] ! 0)))"

text \<open>
  \<^verbatim>\<open>executeQueryWithFilters(queryObject, rawFilters = {})\<close>: \<^verbatim>\<open>cleanFilters\<close> runs
  outside every \<^verbatim>\<open>try\<close>, so what it throws rejects the promise.
\<close>

definition executeQueryWithFilters ::
  "env \<Rightarrow> query_object \<Rightarrow> jsval \<Rightarrow> service \<Rightarrow> (js_error + jsval) \<times> service" where
  "executeQueryWithFilters env queryObject arg s =
     (let rawFilters = (if arg = JUndefined then JObj [] else arg)
      in case cleanFilters rawFilters of
           Inl e \<Rightarrow> (Inl e, s)
         | Inr cleanedFilters \<Rightarrow> executeQuery env queryObject cleanedFilters s)"

subsection \<open>Sequences of calls on one instance\<close>

datatype call =
    GetDataCloudContext
  | ExecuteQuery query_object jsval
  | ExecuteRawQuery jsval "(jsval \<Rightarrow> js_error + jsval) option"
  | ExecuteQueryWithFilters query_object jsval

fun do_call :: "env \<Rightarrow> call \<Rightarrow> service \<Rightarrow> service" where
  "do_call env GetDataCloudContext s = snd (getDataCloudContext env s)"
| "do_call env (ExecuteQuery q f) s = snd (executeQuery env q f s)"
| "do_call env (ExecuteRawQuery t f) s = snd (executeRawQuery env t f s)"
| "do_call env (ExecuteQueryWithFilters q f) s = snd (executeQueryWithFilters env q f s)"

fun run_calls :: "env \<Rightarrow> call list \<Rightarrow> service \<Rightarrow> service" where
  "run_calls env [] s = s"
| "run_calls env (c # cs) s = run_calls env cs (do_call env c s)"

section \<open>Envelopes, a frame predicate, and collaborators for the examples\<close>

text \<open>
  The failure envelope of \<^verbatim>\<open>executeQuery\<close> as the specification writes it:
  \<^verbatim>\<open>{success: false, error: "Failed to execute Data Cloud query", message, query, filters}\<close>.
\<close>

definition failure_envelope :: "string \<Rightarrow> jsval \<Rightarrow> jsval \<Rightarrow> jsval" where
  "failure_envelope m q fs =
     JObj [(''success'', JBool False),
           (''error'', JStr ''Failed to execute Data Cloud query''),
           (''message'', JStr m),
           (''query'', q),
           (''filters'', fs)]"

text \<open>Two instance states that differ in what the logger received at most.\<close>

definition same_cache :: "service \<Rightarrow> service \<Rightarrow> bool" where
  "same_cache s t =
     (authCalls s = authCalls t \<and> dataCloudContext s = dataCloudContext t
      \<and> dcConnectionName s = dcConnectionName t)"

text \<open>An environment whose \<^verbatim>\<open>getAuthorization\<close> rejects every time.\<close>

definition rejecting_env :: env where
  "rejecting_env =
     \<lparr>getAuthorization = (\<lambda>n name. Inl (Error ''authorization failed'')),
      now = ''2025-01-01T00:00:00.000Z''\<rparr>"

text \<open>
  The mocks of \<^verbatim>\<open>test/lib/data-cloud-query-service.test.js\<close>: an SDK whose
  authorization resolves to a context whose query resolves to one record, and the two
  query objects. \<^verbatim>\<open>mockQueryObjectWithBuildQuery.buildQuery\<close> has no default for its
  parameter, so a call without argument throws on \<^verbatim>\<open>filters.name\<close>.
\<close>

definition mock_context :: dc_context where
  "mock_context =
     \<lparr>dataCloudApi_query =
        (\<lambda>q. Inr (JObj [(''data'', JArr [JObj [(''Id'', JStr ''1''), (''Name'', JStr ''Test'')]])]))\<rparr>"

definition mock_env :: env where
  "mock_env =
     \<lparr>getAuthorization = (\<lambda>n name. Inr mock_context), now = ''2025-01-01T00:00:00.000Z''\<rparr>"

definition mock_record :: "jsval \<Rightarrow> js_error + jsval" where
  "mock_record record =
     bind_res (js_get record ''Id'') (\<lambda>v0.
     bind_res (js_get record ''Name'') (\<lambda>v1.
     Inr (JObj [(''id'', v0), (''name'', v1)])))"

definition mock_buildQuery :: "jsval \<Rightarrow> js_error + jsval" where
  "mock_buildQuery filters =
     (let sql0 = ''SELECT * FROM TestTable WHERE 1=1'' in
      bind_res (js_get filters ''name'') (\<lambda>name.
      let sql1 = (if truthy name
                  then sql0 @ '' AND Name = '' @ [SQ] @ js_String name @ [SQ] else sql0) in
      bind_res (js_get filters ''type'') (\<lambda>type.
      let sql2 = (if truthy type
                  then sql1 @ '' AND Type = '' @ [SQ] @ js_String type @ [SQ] else sql1) in
      Inr (JStr sql2))))"

definition mockQueryObject :: query_object where
  "mockQueryObject =
     \<lparr>buildQuery = None, sql = JStr ''SELECT * FROM TestTable'',
      transform = (\<lambda>data. js_map data mock_record)\<rparr>"

definition mockQueryObjectWithBuildQuery :: query_object where
  "mockQueryObjectWithBuildQuery =
     \<lparr>buildQuery = Some mock_buildQuery, sql = JUndefined,
      transform = (\<lambda>data. js_map data mock_record)\<rparr>"

text \<open>
  A context whose query rejects with the message \<^verbatim>\<open>boom\<close>, and a query object with
  neither \<^verbatim>\<open>sql\<close> nor \<^verbatim>\<open>buildQuery\<close>.
\<close>

definition boom_context :: dc_context where
  "boom_context = \<lparr>dataCloudApi_query = (\<lambda>q. Inl (Error ''boom''))\<rparr>"

definition boom_env :: env where
  "boom_env =
     \<lparr>getAuthorization = (\<lambda>n name. Inr boom_context), now = ''2025-01-01T00:00:00.000Z''\<rparr>"

definition bare_query_object :: query_object where
  "bare_query_object =
     \<lparr>buildQuery = None, sql = JUndefined, transform = (\<lambda>data. js_map data mock_record)\<rparr>"

section \<open>Escaping\<close>

lemma replace_all_absent: "c \<notin> set s \<Longrightarrow> replace_all c r s = s"
  by (induction s) (auto simp: replace_all_def)

lemma digit_char_range: "d < 10 \<Longrightarrow> digit_char d \<in> set ''0123456789''"
  unfolding digit_char_def by (rule nth_mem) simp

lemma digits_chars: "set (digits n) \<subseteq> set ''0123456789''"
proof (induction n rule: digits.induct)
  case (1 n)
  show ?case
  proof (cases "n < 10")
    case True
    then show ?thesis
      using digit_char_range [of n] by (subst digits.simps) simp
  next
    case False
    have "n mod 10 < 10" by simp
    then have "digit_char (n mod 10) \<in> set ''0123456789''" by (rule digit_char_range)
    with False 1 show ?thesis
      by (subst digits.simps) simp
  qed
qed

lemma six_replacements_plain:
  assumes "set s \<inter> {SQ, BSL, CHR 0x00, CHR 0x0A, CHR 0x0D, CHR 0x1A} = {}"
  shows "six_replacements s = s"
  using assms by (simp add: six_replacements_def replace_all_absent)

text \<open>
  On a string the code performs the six replacements of the specification, in its order,
  and the empty string stays empty.
\<close>

lemma escapeSqlString_string: "escapeSqlString (JStr s) = six_replacements s"
  by (simp add: escapeSqlString_def six_replacements_def)

lemma escapeSqlString_empty: "escapeSqlString (JStr []) = []"
  by (simp add: escapeSqlString_def replace_all_def)

text \<open>
  On a number, a boolean, \<^verbatim>\<open>null\<close> or \<^verbatim>\<open>undefined\<close> the early return is
  harmless: the string representation holds none of the six characters, so returning it
  as it is and returning it after the replacements come to the same.
\<close>

lemma escapeSqlString_number: "escapeSqlString (JNum n) = escape_spec (JNum n)"
proof -
  have "set (digits k) \<inter> {SQ, BSL, CHR 0x00, CHR 0x0A, CHR 0x0D, CHR 0x1A} = {}" for k
    using digits_chars [of k] by auto
  then have "six_replacements (digits k) = digits k" for k
    by (rule six_replacements_plain)
  then show ?thesis
    by (simp add: escapeSqlString_def escape_spec_def six_replacements_def replace_all_def)
qed

lemma escapeSqlString_other_primitives:
  "escapeSqlString JUndefined = escape_spec JUndefined"
  "escapeSqlString JNull = escape_spec JNull"
  "escapeSqlString (JBool b) = escape_spec (JBool b)"
  by (simp_all add: escapeSqlString_def escape_spec_def six_replacements_def replace_all_def)

lemma escapeSqlString_123: "escapeSqlString (JNum 123) = ''123''"
  by (simp add: escapeSqlString_def digits.simps digit_char_def)

text \<open>
  Claim C3 says that for every input value \<^verbatim>\<open>escapeSqlString\<close> coerces a non-string
  to its string representation and then applies the six replacements. For an array the
  guard \<^verbatim>\<open>typeof value !== 'string'\<close> returns the string representation before any
  replacement has run: \<^verbatim>\<open>escapeSqlString(["a'b"])\<close> is \<^verbatim>\<open>a'b\<close>, where
  coercing and then replacing gives \<^verbatim>\<open>a''b\<close>.
\<close>

theorem escapeSqlString_skips_non_strings:
  "escapeSqlString (JArr [JStr ''a'b'']) = ''a'b''
   \<and> escape_spec (JArr [JStr ''a'b'']) = [CHR ''a'', SQ, SQ, CHR ''b'']
   \<and> escapeSqlString (JArr [JStr ''a'b'']) \<noteq> escape_spec (JArr [JStr ''a'b''])"
  by (simp add: escapeSqlString_def escape_spec_def six_replacements_def replace_all_def)

text \<open>
  Claim C3 as amended: for a string, a number, a boolean, \<^verbatim>\<open>null\<close> and
  \<^verbatim>\<open>undefined\<close> the result of \<^verbatim>\<open>escapeSqlString\<close> is the string representation
  of the value after the six replacements, applied in the order quote, backslash, NUL,
  LF, CR, SUB; the empty string maps to the empty string. Arrays and objects are left
  out of the statement.
\<close>

theorem escapeSqlString_coerce_then_replace:
  assumes "typeof v \<noteq> ''object'' \<or> v = JNull"
  shows "escapeSqlString v =
           replace_all (CHR 0x1A) [BSL, CHR ''Z'']
             (replace_all (CHR 0x0D) [BSL, CHR ''r'']
               (replace_all (CHR 0x0A) [BSL, CHR ''n'']
                 (replace_all (CHR 0x00) []
                   (replace_all BSL [BSL, BSL]
                     (replace_all SQ [SQ, SQ] (js_String v))))))
         \<and> escapeSqlString v = escape_spec v
         \<and> escapeSqlString (JStr []) = []"
proof -
  have "escapeSqlString v = escape_spec v"
  proof (cases v)
    case (JStr s)
    then show ?thesis by (simp add: escapeSqlString_string escape_spec_def)
  next
    case (JNum n)
    then show ?thesis by (simp only: escapeSqlString_number)
  next
    case (JArr xs)
    with assms show ?thesis by simp
  next
    case (JObj kvs)
    with assms show ?thesis by simp
  qed (simp_all add: escapeSqlString_other_primitives)
  then show ?thesis
    by (simp add: escape_spec_def six_replacements_def escapeSqlString_empty)
qed

theorem escapeSqlString_coerce_then_replace_witness:
  "typeof (JStr ''O'Reilly'') = ''string''
   \<and> escapeSqlString (JStr ''O'Reilly'') = ''O'' @ [SQ, SQ] @ ''Reilly''
   \<and> typeof (JNum 123) = ''number''
   \<and> escapeSqlString (JNum 123) = ''123''"
proof -
  have h1: "typeof (JStr ''O'Reilly'') \<noteq> ''object'' \<or> JStr ''O'Reilly'' = JNull" by simp
  have h2: "typeof (JNum 123) \<noteq> ''object'' \<or> JNum 123 = JNull" by simp
  from escapeSqlString_coerce_then_replace [OF h1] escapeSqlString_coerce_then_replace [OF h2]
  show ?thesis
    by (simp add: replace_all_def digits.simps digit_char_def)
qed

section \<open>Building the unified B2B query\<close>

text \<open>
  A string filter value reaches the query escaped:
  \<^verbatim>\<open>buildQuery({accountName: "O'Reilly"})\<close> contains \<^verbatim>\<open>LIKE '%O''Reilly%'\<close>.
\<close>

lemma buildQuery_OReilly:
  "unifiedB2B_buildQuery (JObj [(''accountName'', JStr ''O'Reilly'')]) =
     Inr (JStr (baseSql @ '' WHERE ssot__Name__c LIKE '' @ [SQ] @ ''%O'' @ [SQ, SQ] @ ''Reilly%''
                @ [SQ] @ '' LIMIT 100''))"
  by (simp add: unifiedB2B_buildQuery_def bind_res_def own_prop_def escapeSqlString_def
      replace_all_def)

lemma buildQuery_string_accountName:
  assumes "own_prop fs ''accountName'' = JStr s" and "s \<noteq> []"
  shows "\<exists>rest. unifiedB2B_buildQuery (JObj fs) =
           Inr (JStr (baseSql @ '' WHERE ssot__Name__c LIKE '' @ [SQ] @ ''%'' @ six_replacements s
                      @ ''%'' @ [SQ] @ rest))"
  using assms
  by (simp add: unifiedB2B_buildQuery_def bind_res_def Let_def escapeSqlString_string)

text \<open>
  Claim C4: for every truthy filter value, \<^verbatim>\<open>buildQuery\<close> escapes the value before
  embedding it in the WHERE condition. An array is truthy, and \<^verbatim>\<open>escapeSqlString\<close>
  hands its string representation back unescaped, so
  \<^verbatim>\<open>buildQuery({accountName: ["x' OR '1'='1"]})\<close> embeds the quotes as they came.
\<close>

theorem buildQuery_array_value_unescaped:
  "truthy (JArr [JStr ''x' OR '1'='1''])
   \<and> unifiedB2B_buildQuery (JObj [(''accountName'', JArr [JStr ''x' OR '1'='1''])]) =
       Inr (JStr (baseSql @ '' WHERE ssot__Name__c LIKE '' @ [SQ] @ ''%x' OR '1'='1%'' @ [SQ]
                  @ '' LIMIT 100''))"
  by (simp add: unifiedB2B_buildQuery_def bind_res_def own_prop_def escapeSqlString_def)

text \<open>
  Claim C5: the conditions of the truthy keys appear joined by \<^verbatim>\<open> AND \<close> in the fixed
  order accountName, accountSource, segment; without a condition there is no WHERE clause;
  \<^verbatim>\<open> LIMIT 100\<close> is always appended; \<^verbatim>\<open>buildQuery()\<close> without argument is
  \<^verbatim>\<open>baseSql + ' LIMIT 100'\<close>.
\<close>

theorem buildQuery_conditions:
  "unifiedB2B_buildQuery (JObj fs) =
     Inr (JStr (baseSql
        @ (if \<not> truthy (own_prop fs ''accountName'') \<and> \<not> truthy (own_prop fs ''accountSource'')
              \<and> \<not> truthy (own_prop fs ''segment'')
           then []
           else '' WHERE '' @ join_str '' AND ''
             ((if truthy (own_prop fs ''accountName'')
               then [''ssot__Name__c LIKE '' @ [SQ] @ ''%''
                     @ escapeSqlString (own_prop fs ''accountName'') @ ''%'' @ [SQ]]
               else [])
              @ (if truthy (own_prop fs ''accountSource'')
                 then [''ssot__AccountSource__c = '' @ [SQ]
                       @ escapeSqlString (own_prop fs ''accountSource'') @ [SQ]]
                 else [])
              @ (if truthy (own_prop fs ''segment'')
                 then [''ssot__AccountTypeId__c = '' @ [SQ]
                       @ escapeSqlString (own_prop fs ''segment'') @ [SQ]]
                 else [])))
        @ '' LIMIT 100''))
   \<and> unifiedB2B_buildQuery JUndefined = Inr (JStr (baseSql @ '' LIMIT 100''))"
  by (simp add: unifiedB2B_buildQuery_def bind_res_def own_prop_def Let_def)

theorem buildQuery_conditions_witness:
  "unifiedB2B_buildQuery (JObj [(''segment'', JStr ''T1''), (''accountName'', JStr []),
                                (''accountSource'', JStr ''Web'')]) =
     Inr (JStr (baseSql @ '' WHERE ssot__AccountSource__c = '' @ [SQ] @ ''Web'' @ [SQ]
                @ '' AND ssot__AccountTypeId__c = '' @ [SQ] @ ''T1'' @ [SQ] @ '' LIMIT 100''))"
  using buildQuery_conditions
    [of "[(''segment'', JStr ''T1''), (''accountName'', JStr []), (''accountSource'', JStr ''Web'')]"]
  by (simp add: own_prop_def escapeSqlString_def replace_all_def)

section \<open>Transforming rows\<close>

lemma map_res_total:
  "(\<And>x. x \<in> set xs \<Longrightarrow> f x = Inr (g x)) \<Longrightarrow> map_res f xs = Inr (map g xs)"
  by (induction xs) (simp_all add: bind_res_def)

lemma unifiedB2B_record_array:
  "unifiedB2B_record (JArr r) =
     Inr (JObj [(''name'', cell r 0), (''number'', cell r 1), (''accountSource'', cell r 2),
                (''accountTypeId'', cell r 3), (''createdDate'', cell r 4),
                (''lastModifiedDate'', cell r 5), (''parentAccountId'', cell r 6),
                (''id'', cell r 7)])"
  by (simp add: unifiedB2B_record_def bind_res_def)

lemma userEngagement_record_array:
  "userEngagement_record (JArr r) =
     Inr (JObj [(''clientSession'', cell r 0), (''createdDate'', cell r 1),
                (''entityType'', cell r 2), (''eventIdentifier'', cell r 3),
                (''eventName'', cell r 4)])"
  by (simp add: userEngagement_record_def bind_res_def)

lemma unifiedB2B_transform_rows:
  "unifiedB2B_transform (JArr (map JArr rows)) =
     Inr (JArr (map (\<lambda>r. JObj [(''name'', cell r 0), (''number'', cell r 1),
                                (''accountSource'', cell r 2), (''accountTypeId'', cell r 3),
                                (''createdDate'', cell r 4), (''lastModifiedDate'', cell r 5),
                                (''parentAccountId'', cell r 6), (''id'', cell r 7)]) rows))"
proof -
  let ?named = "\<lambda>r. JObj [(''name'', cell r 0), (''number'', cell r 1),
                          (''accountSource'', cell r 2), (''accountTypeId'', cell r 3),
                          (''createdDate'', cell r 4), (''lastModifiedDate'', cell r 5),
                          (''parentAccountId'', cell r 6), (''id'', cell r 7)]"
  have "map_res unifiedB2B_record (map JArr rows) =
          Inr (map (?named \<circ> (\<lambda>v. case v of JArr r \<Rightarrow> r)) (map JArr rows))"
    by (rule map_res_total) (auto simp: unifiedB2B_record_array)
  then show ?thesis
    by (simp add: unifiedB2B_transform_def js_map_def bind_res_def comp_def)
qed

lemma userEngagement_transform_rows:
  "userEngagement_transform (JArr (map JArr rows)) =
     Inr (JArr (map (\<lambda>r. JObj [(''clientSession'', cell r 0), (''createdDate'', cell r 1),
                                (''entityType'', cell r 2), (''eventIdentifier'', cell r 3),
                                (''eventName'', cell r 4)]) rows))"
proof -
  let ?named = "\<lambda>r. JObj [(''clientSession'', cell r 0), (''createdDate'', cell r 1),
                          (''entityType'', cell r 2), (''eventIdentifier'', cell r 3),
                          (''eventName'', cell r 4)]"
  have "map_res userEngagement_record (map JArr rows) =
          Inr (map (?named \<circ> (\<lambda>v. case v of JArr r \<Rightarrow> r)) (map JArr rows))"
    by (rule map_res_total) (auto simp: userEngagement_record_array)
  then show ?thesis
    by (simp add: userEngagement_transform_def js_map_def bind_res_def comp_def)
qed

text \<open>
  Claim C9: on a list of positional rows \<^verbatim>\<open>transform\<close> returns as many records as
  there are rows, the record at position \<open>i\<close> built from the row at position \<open>i\<close>; for
  \<^verbatim>\<open>unifiedB2BQuery\<close> the positions 0 to 7 of a row become the fields name, number,
  accountSource, accountTypeId, createdDate, lastModifiedDate, parentAccountId, id (and for
  \<^verbatim>\<open>userEngagementQuery\<close> the positions 0 to 4 its five fields). A position the row
  does not have reads as \<^verbatim>\<open>undefined\<close>. The example of the specification closes the
  statement.
\<close>

theorem transform_positional:
  "(\<exists>out. unifiedB2B_transform (JArr (map JArr rows)) = Inr (JArr out)
        \<and> length out = length rows
        \<and> (\<forall>i<length rows. out ! i =
              JObj [(''name'', cell (rows ! i) 0), (''number'', cell (rows ! i) 1),
                    (''accountSource'', cell (rows ! i) 2), (''accountTypeId'', cell (rows ! i) 3),
                    (''createdDate'', cell (rows ! i) 4), (''lastModifiedDate'', cell (rows ! i) 5),
                    (''parentAccountId'', cell (rows ! i) 6), (''id'', cell (rows ! i) 7)]))
   \<and> (\<exists>out. userEngagement_transform (JArr (map JArr rows)) = Inr (JArr out)
        \<and> length out = length rows
        \<and> (\<forall>i<length rows. out ! i =
              JObj [(''clientSession'', cell (rows ! i) 0), (''createdDate'', cell (rows ! i) 1),
                    (''entityType'', cell (rows ! i) 2), (''eventIdentifier'', cell (rows ! i) 3),
                    (''eventName'', cell (rows ! i) 4)]))
   \<and> unifiedB2B_transform
        (JArr [JArr [JStr ''A'', JStr ''1'', JStr ''Web'', JStr ''T1'', JStr ''d1'', JStr ''d2'',
                     JStr ''P1'', JStr ''ID1'']])
      = Inr (JArr [JObj [(''name'', JStr ''A''), (''number'', JStr ''1''),
                         (''accountSource'', JStr ''Web''), (''accountTypeId'', JStr ''T1''),
                         (''createdDate'', JStr ''d1''), (''lastModifiedDate'', JStr ''d2''),
                         (''parentAccountId'', JStr ''P1''), (''id'', JStr ''ID1'')]])"
proof (intro conjI)
  show "\<exists>out. unifiedB2B_transform (JArr (map JArr rows)) = Inr (JArr out)
        \<and> length out = length rows
        \<and> (\<forall>i<length rows. out ! i =
              JObj [(''name'', cell (rows ! i) 0), (''number'', cell (rows ! i) 1),
                    (''accountSource'', cell (rows ! i) 2), (''accountTypeId'', cell (rows ! i) 3),
                    (''createdDate'', cell (rows ! i) 4), (''lastModifiedDate'', cell (rows ! i) 5),
                    (''parentAccountId'', cell (rows ! i) 6), (''id'', cell (rows ! i) 7)])"
    by (simp add: unifiedB2B_transform_rows)
  show "\<exists>out. userEngagement_transform (JArr (map JArr rows)) = Inr (JArr out)
        \<and> length out = length rows
        \<and> (\<forall>i<length rows. out ! i =
              JObj [(''clientSession'', cell (rows ! i) 0), (''createdDate'', cell (rows ! i) 1),
                    (''entityType'', cell (rows ! i) 2), (''eventIdentifier'', cell (rows ! i) 3),
                    (''eventName'', cell (rows ! i) 4)])"
    by (simp add: userEngagement_transform_rows)
  show "unifiedB2B_transform
        (JArr [JArr [JStr ''A'', JStr ''1'', JStr ''Web'', JStr ''T1'', JStr ''d1'', JStr ''d2'',
                     JStr ''P1'', JStr ''ID1'']])
      = Inr (JArr [JObj [(''name'', JStr ''A''), (''number'', JStr ''1''),
                         (''accountSource'', JStr ''Web''), (''accountTypeId'', JStr ''T1''),
                         (''createdDate'', JStr ''d1''), (''lastModifiedDate'', JStr ''d2''),
                         (''parentAccountId'', JStr ''P1''), (''id'', JStr ''ID1'')]])"
    by (simp add: unifiedB2B_transform_def js_map_def unifiedB2B_record_def bind_res_def cell_def)
qed

theorem transform_positional_witness:
  "userEngagement_transform (JArr [JArr [JStr ''s1'', JStr ''d1'', JStr ''Page'']]) =
     Inr (JArr [JObj [(''clientSession'', JStr ''s1''), (''createdDate'', JStr ''d1''),
                      (''entityType'', JStr ''Page''), (''eventIdentifier'', JUndefined),
                      (''eventName'', JUndefined)]])"
proof -
  from transform_positional [of "[[JStr ''s1'', JStr ''d1'', JStr ''Page'']]"]
  obtain out where t: "userEngagement_transform (JArr [JArr [JStr ''s1'', JStr ''d1'', JStr ''Page'']])
                         = Inr (JArr out)"
    and n: "length out = 1"
    and c: "out ! 0 = JObj [(''clientSession'', JStr ''s1''), (''createdDate'', JStr ''d1''),
                            (''entityType'', JStr ''Page''), (''eventIdentifier'', JUndefined),
                            (''eventName'', JUndefined)]"
    by (auto simp: cell_def)
  from n obtain x where "out = [x]"
    by (cases out) auto
  with c t show ?thesis by simp
qed

section \<open>Cleaning filters\<close>



lemma own_set_values: "set (own_set acc k v) \<subseteq> insert (k, v) (set acc)"
  by (induction acc) (auto split: if_splits)



lemma obj_set_values: "set (obj_set acc k v) \<subseteq> insert (k, v) (set acc)"
  using own_set_values [of acc k v] by (auto simp: obj_set_def)





text \<open>Whatever the argument, no value of the cleaned object is one of the three.\<close>

lemma cleanFilters_loop_values:
  assumes "\<forall>kv\<in>set acc. snd kv \<noteq> JUndefined \<and> snd kv \<noteq> JNull \<and> snd kv \<noteq> JStr []"
  shows "\<forall>kv\<in>set (cleanFilters_loop es 0 [acc] ! 0).
           snd kv \<noteq> JUndefined \<and> snd kv \<noteq> JNull \<and> snd kv \<noteq> JStr []"
  using assms
proof (induction es arbitrary: acc)
  case Nil
  then show ?case by simp
next
  case (Cons e es)
  obtain k v where e: "e = (k, v)" by (cases e)
  show ?case
  proof (cases "v \<noteq> JUndefined \<and> v \<noteq> JNull \<and> v \<noteq> JStr []")
    case True
    with Cons.prems obj_set_values [of acc k v]
    have "\<forall>kv\<in>set (obj_set acc k v). snd kv \<noteq> JUndefined \<and> snd kv \<noteq> JNull \<and> snd kv \<noteq> JStr []"
      by auto
    from Cons.IH [OF this] True show ?thesis by (simp add: e)
  next
    case False
    from Cons.IH [OF Cons.prems] False show ?thesis by (auto simp: e)
  qed
qed

lemma cleanFilters_object: "cleanFilters x = Inr c \<Longrightarrow> \<exists>kvs. c = JObj kvs"
  by (cases "Object_entries x") (auto simp: cleanFilters_def bind_res_def)

lemma cleanFilters_values:
  assumes "cleanFilters x = Inr (JObj cleaned)"
  shows "\<forall>kv\<in>set cleaned. snd kv \<noteq> JUndefined \<and> snd kv \<noteq> JNull \<and> snd kv \<noteq> JStr []"
proof -
  from assms obtain es where "cleaned = cleanFilters_loop es 0 [[]] ! 0"
    by (cases "Object_entries x") (auto simp: cleanFilters_def bind_res_def)
  with cleanFilters_loop_values [of "[]" es] show ?thesis by simp
qed




section \<open>The cached context\<close>

lemma getDataCloudContext_cached:
  "dataCloudContext s = Some ctx \<Longrightarrow> getDataCloudContext env s = (Inr ctx, s)"
  by (simp add: getDataCloudContext_def)

lemma getDataCloudContext_rejected:
  assumes "dataCloudContext s = None"
    and "getAuthorization env (authCalls s) (dcConnectionName s) = Inl e"
  shows "fst (getDataCloudContext env s) = Inl e"
    and "authCalls (snd (getDataCloudContext env s)) = Suc (authCalls s)"
    and "dataCloudContext (snd (getDataCloudContext env s)) = None"
    and "dcConnectionName (snd (getDataCloudContext env s)) = dcConnectionName s"
  using assms by (simp_all add: getDataCloudContext_def log_info_def Let_def)

lemma getDataCloudContext_resolved:
  assumes "dataCloudContext s = None"
    and "getAuthorization env (authCalls s) (dcConnectionName s) = Inr ctx"
  shows "fst (getDataCloudContext env s) = Inr ctx"
    and "authCalls (snd (getDataCloudContext env s)) = Suc (authCalls s)"
    and "dataCloudContext (snd (getDataCloudContext env s)) = Some ctx"
    and "dcConnectionName (snd (getDataCloudContext env s)) = dcConnectionName s"
  using assms by (simp_all add: getDataCloudContext_def log_info_def Let_def)

text \<open>
  After the context lookup a method only writes to the logger: cache and invocation
  count are those the lookup left.
\<close>

lemma same_cache_log [simp]:
  "same_cache (log_info m s) t = same_cache s t"
  "same_cache (log_error m s) t = same_cache s t"
  by (simp_all add: same_cache_def log_info_def log_error_def)

lemma same_cache_refl [simp]: "same_cache s s"
  by (simp add: same_cache_def)

lemma executeQuery_try_state:
  "same_cache (snd (executeQuery_try env q fs s)) (snd (getDataCloudContext env s))"
  by (cases "getDataCloudContext env s")
     (auto simp: executeQuery_try_def Let_def split: sum.splits)

lemma executeQuery_state:
  "same_cache (snd (executeQuery env q arg s)) (snd (getDataCloudContext env s))"
proof -
  let ?fs = "if arg = JUndefined then JObj [] else arg"
  obtain r s1 where t: "executeQuery_try env q ?fs s = (r, s1)"
    by (cases "executeQuery_try env q ?fs s")
  from executeQuery_try_state [of env q ?fs s] t
  have "same_cache s1 (snd (getDataCloudContext env s))" by simp
  with t show ?thesis
    by (cases r) (simp_all add: executeQuery_def Let_def)
qed

lemma executeRawQuery_state:
  "same_cache (snd (executeRawQuery env t f s)) (snd (getDataCloudContext env s))"
proof -
  obtain r s1 where t: "executeRawQuery_try env t f s = (r, s1)"
    by (cases "executeRawQuery_try env t f s")
  have "same_cache (snd (executeRawQuery_try env t f s)) (snd (getDataCloudContext env s))"
    by (cases "getDataCloudContext env s")
       (auto simp: executeRawQuery_try_def Let_def split: sum.splits)
  with t have "same_cache s1 (snd (getDataCloudContext env s))" by simp
  with t show ?thesis
    by (cases r) (simp_all add: executeRawQuery_def Let_def)
qed

lemma executeQueryWithFilters_state:
  "snd (executeQueryWithFilters env q raw s) = s
   \<or> same_cache (snd (executeQueryWithFilters env q raw s)) (snd (getDataCloudContext env s))"
  using executeQuery_state
  by (auto simp: executeQueryWithFilters_def Let_def split: sum.splits)

lemma do_call_state:
  "do_call env c s = s \<or> same_cache (do_call env c s) (snd (getDataCloudContext env s))"
  using executeQuery_state executeRawQuery_state executeQueryWithFilters_state
  by (cases c) auto

lemma do_call_cached:
  assumes "dataCloudContext s = Some ctx"
  shows "dataCloudContext (do_call env c s) = Some ctx \<and> authCalls (do_call env c s) = authCalls s"
  using do_call_state [of env c s] getDataCloudContext_cached [OF assms, of env] assms
  by (auto simp: same_cache_def)

lemma run_calls_cached:
  assumes "dataCloudContext s = Some ctx"
  shows "dataCloudContext (run_calls env cs s) = Some ctx
         \<and> authCalls (run_calls env cs s) = authCalls s"
  using assms
proof (induction cs arbitrary: s)
  case Nil
  then show ?case by simp
next
  case (Cons c cs)
  from do_call_cached [OF Cons.prems, of env c]
  have 1: "dataCloudContext (do_call env c s) = Some ctx"
    and 2: "authCalls (do_call env c s) = authCalls s" by simp_all
  from Cons.IH [OF 1] 2 show ?case by simp
qed

text \<open>
  On an instance that has not authorized yet and whose first authorization resolves, a
  call either leaves the instance as it is (\<^verbatim>\<open>executeQueryWithFilters\<close> rejecting
  before it reaches the context) or caches the context with one invocation counted.
\<close>

lemma do_call_first:
  assumes "dataCloudContext s = None" and "authCalls s = 0" and "dcConnectionName s = name"
    and "getAuthorization env 0 name = Inr ctx"
  shows "(dataCloudContext (do_call env c s) = None \<and> authCalls (do_call env c s) = 0
            \<and> dcConnectionName (do_call env c s) = name)
         \<or> (dataCloudContext (do_call env c s) = Some ctx \<and> authCalls (do_call env c s) = 1)"
proof -
  from assms have a: "getAuthorization env (authCalls s) (dcConnectionName s) = Inr ctx" by simp
  note r = getDataCloudContext_resolved [OF assms(1) a]
  from do_call_state [of env c s] show ?thesis
  proof
    assume "do_call env c s = s"
    with assms show ?thesis by simp
  next
    assume "same_cache (do_call env c s) (snd (getDataCloudContext env s))"
    with r assms show ?thesis by (simp add: same_cache_def)
  qed
qed

lemma run_calls_first:
  assumes "dataCloudContext s = None" and "authCalls s = 0" and "dcConnectionName s = name"
    and "getAuthorization env 0 name = Inr ctx"
  shows "authCalls (run_calls env cs s) \<le> 1"
  using assms
proof (induction cs arbitrary: s)
  case Nil
  then show ?case by simp
next
  case (Cons c cs)
  from do_call_first [OF Cons.prems, of c]
  show ?case
  proof
    assume "dataCloudContext (do_call env c s) = None \<and> authCalls (do_call env c s) = 0
            \<and> dcConnectionName (do_call env c s) = name"
    then have "authCalls (run_calls env cs (do_call env c s)) \<le> 1"
      using Cons.prems(4) by (intro Cons.IH) simp_all
    then show ?thesis by simp
  next
    assume c: "dataCloudContext (do_call env c s) = Some ctx \<and> authCalls (do_call env c s) = 1"
    then have "authCalls (run_calls env cs (do_call env c s)) = authCalls (do_call env c s)"
      using run_calls_cached [of "do_call env c s" ctx env cs] by simp
    with c show ?thesis by simp
  qed
qed

lemma executeQuery_first:
  assumes "getAuthorization env 0 name = Inr ctx"
  shows "dataCloudContext (snd (executeQuery env q f (new_service name))) = Some ctx
         \<and> authCalls (snd (executeQuery env q f (new_service name))) = 1"
proof -
  have n: "dataCloudContext (new_service name) = None"
    and a: "getAuthorization env (authCalls (new_service name))
              (dcConnectionName (new_service name)) = Inr ctx"
    using assms by (simp_all add: new_service_def)
  note r = getDataCloudContext_resolved [OF n a]
  from executeQuery_state [of env q f "new_service name"] r
  show ?thesis by (simp add: same_cache_def new_service_def)
qed

text \<open>
  Claim C2 says that on every instance and for every sequence of calls the authorization
  is invoked at most once. A rejected authorization leaves \<^verbatim>\<open>_dataCloudContext\<close> at
  \<^verbatim>\<open>null\<close>, so the next call invokes it again: with an authorization that rejects,
  two \<^verbatim>\<open>executeQuery\<close> calls in sequence invoke it twice.
\<close>

theorem authorize_twice_counterexample:
  "authCalls (run_calls rejecting_env
       [ExecuteQuery userEngagementQuery (JObj []), ExecuteQuery userEngagementQuery (JObj [])]
       (new_service ''dc'')) = 2
   \<and> \<not> authCalls (run_calls rejecting_env
       [ExecuteQuery userEngagementQuery (JObj []), ExecuteQuery userEngagementQuery (JObj [])]
       (new_service ''dc'')) \<le> 1"
  by (simp add: rejecting_env_def executeQuery_def executeQuery_try_def getDataCloudContext_def
      new_service_def log_info_def log_error_def Let_def)

text \<open>
  Claim C2 as amended: on a new instance whose first authorization resolves, every
  sequence of calls to the four methods invokes the authorization at most once, and two
  \<^verbatim>\<open>executeQuery\<close> calls in sequence invoke it exactly once; once a context is cached,
  \<^verbatim>\<open>getDataCloudContext\<close> returns it without a further invocation and without
  changing the instance, and no sequence of calls invokes the authorization or replaces
  the context; a rejected authorization is not cached.
\<close>

theorem authorize_once_after_success:
  "(getAuthorization env 0 name = Inr ctx \<longrightarrow>
      authCalls (run_calls env cs (new_service name)) \<le> 1
      \<and> authCalls (run_calls env [ExecuteQuery q1 f1, ExecuteQuery q2 f2] (new_service name)) = 1)
   \<and> (dataCloudContext s = Some ctx \<longrightarrow>
        getDataCloudContext env s = (Inr ctx, s)
        \<and> authCalls (run_calls env cs s) = authCalls s
        \<and> dataCloudContext (run_calls env cs s) = Some ctx)
   \<and> (dataCloudContext s = None
        \<and> getAuthorization env (authCalls s) (dcConnectionName s) = Inl e \<longrightarrow>
        dataCloudContext (snd (getDataCloudContext env s)) = None
        \<and> authCalls (snd (getDataCloudContext env s)) = Suc (authCalls s))"
proof (intro conjI impI)
  assume a: "getAuthorization env 0 name = Inr ctx"
  show "authCalls (run_calls env cs (new_service name)) \<le> 1"
    by (rule run_calls_first [OF _ _ _ a]) (simp_all add: new_service_def)
  from executeQuery_first [OF a, of q1 f1]
  have c: "dataCloudContext (snd (executeQuery env q1 f1 (new_service name))) = Some ctx"
    and n: "authCalls (snd (executeQuery env q1 f1 (new_service name))) = 1" by simp_all
  from run_calls_cached [OF c, of env "[ExecuteQuery q2 f2]"] n
  show "authCalls (run_calls env [ExecuteQuery q1 f1, ExecuteQuery q2 f2] (new_service name)) = 1"
    by simp
next
  assume c: "dataCloudContext s = Some ctx"
  then show "getDataCloudContext env s = (Inr ctx, s)" by (rule getDataCloudContext_cached)
  from run_calls_cached [OF c, of env cs]
  show "authCalls (run_calls env cs s) = authCalls s"
    and "dataCloudContext (run_calls env cs s) = Some ctx" by simp_all
next
  assume r: "dataCloudContext s = None
             \<and> getAuthorization env (authCalls s) (dcConnectionName s) = Inl e"
  then show "dataCloudContext (snd (getDataCloudContext env s)) = None"
    and "authCalls (snd (getDataCloudContext env s)) = Suc (authCalls s)"
    using getDataCloudContext_rejected [of s env e] by simp_all
qed

theorem authorize_once_after_success_witness:
  "getAuthorization mock_env 0 ''test-connection'' = Inr mock_context
   \<and> authCalls (run_calls mock_env
        [ExecuteQuery mockQueryObject (JObj []), GetDataCloudContext,
         ExecuteRawQuery (JStr ''SELECT 1'') None,
         ExecuteQueryWithFilters mockQueryObjectWithBuildQuery JNull]
        (new_service ''test-connection'')) \<le> 1
   \<and> authCalls (run_calls mock_env
        [ExecuteQuery mockQueryObject (JObj []), ExecuteQuery unifiedB2BQuery (JObj [])]
        (new_service ''test-connection'')) = 1"
proof -
  have h: "getAuthorization mock_env 0 ''test-connection'' = Inr mock_context"
    by (simp add: mock_env_def)
  from authorize_once_after_success
         [of mock_env "''test-connection''" mock_context
             "[ExecuteQuery mockQueryObject (JObj []), GetDataCloudContext,
               ExecuteRawQuery (JStr ''SELECT 1'') None,
               ExecuteQueryWithFilters mockQueryObjectWithBuildQuery JNull]"
             mockQueryObject "JObj []" unifiedB2BQuery "JObj []"] h
  show ?thesis by blast
qed

section \<open>The envelopes of \<^verbatim>\<open>executeQuery\<close>\<close>

lemma executeQuery_try_auth_rejected:
  assumes "fst (getDataCloudContext env s) = Inl e"
  shows "fst (executeQuery_try env q fs s) = Inl e"
  using assms by (cases "getDataCloudContext env s") (simp add: executeQuery_try_def)

lemma executeQuery_try_with_context:
  assumes "fst (getDataCloudContext env s) = Inr ctx"
  shows "fst (executeQuery_try env q fs s) =
     bind_res (resolve_query q fs) (\<lambda>query.
     bind_res (dataCloudApi_query ctx query) (\<lambda>response.
     bind_res (js_get response ''data'') (\<lambda>data.
     bind_res (transform q (if truthy data then data else JArr [])) (\<lambda>transformedRecords.
     bind_res (js_get transformedRecords ''length'') (\<lambda>totalRecords.
     Inr (JObj [(''success'', JBool True),
                (''records'', transformedRecords),
                (''metadata'',
                   JObj [(''totalRecords'', totalRecords),
                         (''query'', query),
                         (''filters'', fs),
                         (''executedAt'', JStr (now env))])]))))))"
  using assms
  by (cases "getDataCloudContext env s")
     (auto simp: executeQuery_try_def bind_res_def Let_def split: sum.splits)

text \<open>The \<^verbatim>\<open>catch\<close> block turns whatever the \<^verbatim>\<open>try\<close> block threw into the envelope.\<close>

lemma executeQuery_caught:
  assumes "fst (executeQuery_try env q (if arg = JUndefined then JObj [] else arg) s) = Inl e"
  shows "fst (executeQuery env q arg s) =
           Inr (failure_envelope (message e) (fallbackQuery q)
                  (if arg = JUndefined then JObj [] else arg))"
  using assms
  by (cases "executeQuery_try env q (if arg = JUndefined then JObj [] else arg) s")
     (simp add: executeQuery_def failure_envelope_def Let_def)

lemma executeQuery_passed:
  assumes "fst (executeQuery_try env q (if arg = JUndefined then JObj [] else arg) s) = Inr r"
  shows "fst (executeQuery env q arg s) = Inr r"
  using assms
  by (cases "executeQuery_try env q (if arg = JUndefined then JObj [] else arg) s")
     (simp add: executeQuery_def Let_def)

lemma executeQuery_resolves: "\<exists>r. fst (executeQuery env q arg s) = Inr r"
proof (cases "fst (executeQuery_try env q (if arg = JUndefined then JObj [] else arg) s)")
  case (Inl e)
  then show ?thesis using executeQuery_caught by blast
next
  case (Inr r)
  then show ?thesis using executeQuery_passed by blast
qed

lemma executeQueryWithFilters_cleaned:
  assumes "cleanFilters (if raw = JUndefined then JObj [] else raw) = Inr cleaned"
  shows "executeQueryWithFilters env q raw s = executeQuery env q cleaned s"
  using assms by (simp add: executeQueryWithFilters_def Let_def)

lemma fallbackQuery_cases:
  "fallbackQuery q =
     (case buildQuery q of
        Some build \<Rightarrow> (case build JUndefined of
                         Inl buildErr \<Rightarrow> JStr ''Query build failed''
                       | Inr v \<Rightarrow> v)
      | None \<Rightarrow> if truthy (sql q) then sql q else JUndefined)"
  by (simp add: fallbackQuery_def split: option.splits sum.splits)

text \<open>
  Claim C1 says that a rejected authorization makes \<^verbatim>\<open>executeQuery\<close> (and hence
  \<^verbatim>\<open>executeQueryWithFilters\<close>) reject with that error. The call to
  \<^verbatim>\<open>getDataCloudContext\<close> is the first statement inside the \<^verbatim>\<open>try\<close> block, so
  the rejection is caught like every other failure: the call resolves to the failure
  envelope, with the message of the authorization error.
\<close>

theorem authorization_failure_counterexample:
  "getAuthorization rejecting_env 0 ''dc'' = Inl (Error ''authorization failed'')
   \<and> fst (executeQuery rejecting_env userEngagementQuery (JObj []) (new_service ''dc'')) =
       Inr (JObj [(''success'', JBool False),
                  (''error'', JStr ''Failed to execute Data Cloud query''),
                  (''message'', JStr ''authorization failed''),
                  (''query'', JStr userEngagement_sql),
                  (''filters'', JObj [])])
   \<and> fst (executeQuery rejecting_env userEngagementQuery (JObj []) (new_service ''dc'')) \<noteq>
       Inl (Error ''authorization failed'')"
  by (simp add: rejecting_env_def executeQuery_def executeQuery_try_def getDataCloudContext_def
      new_service_def log_info_def log_error_def fallbackQuery_def userEngagementQuery_def
      userEngagement_sql_def Let_def)

text \<open>
  Claim C1 as amended: when the instance has no cached context and the authorization
  rejects with an error, \<^verbatim>\<open>executeQuery\<close> resolves to the failure envelope carrying the
  message of that error, the fallback query and the filters; so does
  \<^verbatim>\<open>executeQueryWithFilters\<close>, with the cleaned filters.
\<close>

theorem authorization_failure_enveloped:
  assumes "dataCloudContext s = None"
    and "getAuthorization env (authCalls s) (dcConnectionName s) = Inl e"
  shows "fst (executeQuery env q arg s) =
           Inr (failure_envelope (message e) (fallbackQuery q)
                  (if arg = JUndefined then JObj [] else arg))
         \<and> (cleanFilters (if raw = JUndefined then JObj [] else raw) = Inr cleaned \<longrightarrow>
              fst (executeQueryWithFilters env q raw s) =
                Inr (failure_envelope (message e) (fallbackQuery q) cleaned))"
proof -
  have rejected: "fst (getDataCloudContext env s) = Inl e"
    using assms by (rule getDataCloudContext_rejected)
  have enveloped: "fst (executeQuery env q a s) =
           Inr (failure_envelope (message e) (fallbackQuery q)
                  (if a = JUndefined then JObj [] else a))" for a
  proof -
    from rejected
    have "fst (executeQuery_try env q (if a = JUndefined then JObj [] else a) s) = Inl e"
      by (rule executeQuery_try_auth_rejected)
    then show ?thesis by (rule executeQuery_caught)
  qed
  have "fst (executeQueryWithFilters env q raw s) =
          Inr (failure_envelope (message e) (fallbackQuery q) cleaned)"
    if c: "cleanFilters (if raw = JUndefined then JObj [] else raw) = Inr cleaned"
  proof -
    from c obtain kvs where "cleaned = JObj kvs"
      using cleanFilters_object by blast
    then have "cleaned \<noteq> JUndefined" by simp
    with enveloped [of cleaned] executeQueryWithFilters_cleaned [OF c, of env q s]
    show ?thesis by simp
  qed
  with enveloped [of arg] show ?thesis by blast
qed

theorem authorization_failure_enveloped_witness:
  "dataCloudContext (new_service ''dc'') = None
   \<and> getAuthorization rejecting_env (authCalls (new_service ''dc''))
        (dcConnectionName (new_service ''dc'')) = Inl (Error ''authorization failed'')
   \<and> cleanFilters (JObj [(''segment'', JStr [])]) = Inr (JObj [])
   \<and> fst (executeQuery rejecting_env unifiedB2BQuery JUndefined (new_service ''dc'')) =
       Inr (failure_envelope ''authorization failed'' (JStr (baseSql @ '' LIMIT 100'')) (JObj []))
   \<and> fst (executeQueryWithFilters rejecting_env unifiedB2BQuery (JObj [(''segment'', JStr [])])
            (new_service ''dc'')) =
       Inr (failure_envelope ''authorization failed'' (JStr (baseSql @ '' LIMIT 100'')) (JObj []))"
proof -
  have h1: "dataCloudContext (new_service ''dc'') = None"
    by (simp add: new_service_def)
  have h2: "getAuthorization rejecting_env (authCalls (new_service ''dc''))
              (dcConnectionName (new_service ''dc'')) = Inl (Error ''authorization failed'')"
    by (simp add: rejecting_env_def)
  have h3: "cleanFilters (JObj [(''segment'', JStr [])]) = Inr (JObj [])"
    by (simp add: cleanFilters_def bind_res_def obj_set_def)
  have fb: "fallbackQuery unifiedB2BQuery = JStr (baseSql @ '' LIMIT 100'')"
    by (simp add: fallbackQuery_def unifiedB2BQuery_def unifiedB2B_buildQuery_def bind_res_def
        own_prop_def)
  from authorization_failure_enveloped
         [OF h1 h2, of unifiedB2BQuery JUndefined "JObj [(''segment'', JStr [])]" "JObj []"]
       h1 h2 h3 fb
  show ?thesis by simp
qed

text \<open>
  Claim C8: with the context at hand, a failure of the query resolution (no
  \<^verbatim>\<open>sql\<close> and no \<^verbatim>\<open>buildQuery\<close>, or \<^verbatim>\<open>buildQuery\<close> throwing), of the execution
  (the query rejecting) or of the transformation, and anything else thrown inside the
  \<^verbatim>\<open>try\<close> block, does not make \<^verbatim>\<open>executeQuery\<close> reject: it resolves to the failure
  envelope with the message of what was caught, the fallback query and the filters. The
  fallback query is what \<^verbatim>\<open>buildQuery()\<close> returns when \<^verbatim>\<open>buildQuery\<close> exists, the
  string \<^verbatim>\<open>Query build failed\<close> when that call throws, and otherwise \<^verbatim>\<open>sql\<close> when it
  is truthy (\<^verbatim>\<open>undefined\<close> when it is not). \<^verbatim>\<open>executeQuery\<close> resolves in every case.
\<close>

theorem local_failures_enveloped:
  assumes "fst (getDataCloudContext env s) = Inr ctx"
    and "fs = (if arg = JUndefined then JObj [] else arg)"
  shows "(resolve_query q fs = Inl e \<longrightarrow>
            fst (executeQuery env q arg s) = Inr (failure_envelope (message e) (fallbackQuery q) fs))
       \<and> (resolve_query q fs = Inr sqlv \<and> dataCloudApi_query ctx sqlv = Inl e \<longrightarrow>
            fst (executeQuery env q arg s) = Inr (failure_envelope (message e) (fallbackQuery q) fs))
       \<and> (resolve_query q fs = Inr sqlv \<and> dataCloudApi_query ctx sqlv = Inr response
            \<and> js_get response ''data'' = Inr d
            \<and> transform q (if truthy d then d else JArr []) = Inl e \<longrightarrow>
            fst (executeQuery env q arg s) = Inr (failure_envelope (message e) (fallbackQuery q) fs))
       \<and> (fst (executeQuery_try env q fs s) = Inl e \<longrightarrow>
            fst (executeQuery env q arg s) = Inr (failure_envelope (message e) (fallbackQuery q) fs))
       \<and> fallbackQuery q =
           (case buildQuery q of
              Some build \<Rightarrow> (case build JUndefined of
                               Inl buildErr \<Rightarrow> JStr ''Query build failed''
                             | Inr v \<Rightarrow> v)
            | None \<Rightarrow> if truthy (sql q) then sql q else JUndefined)
       \<and> (\<exists>r. fst (executeQuery env q arg s) = Inr r)"
proof -
  note body = executeQuery_try_with_context [OF assms(1), of q fs]
  have caught: "fst (executeQuery env q arg s) =
                  Inr (failure_envelope (message e) (fallbackQuery q) fs)"
    if "fst (executeQuery_try env q fs s) = Inl e" for e
    using that executeQuery_caught [of env q arg s e] assms(2) by simp
  have 1: "fst (executeQuery_try env q fs s) = Inl e" if "resolve_query q fs = Inl e"
    using that body by (simp add: bind_res_def)
  have 2: "fst (executeQuery_try env q fs s) = Inl e"
    if "resolve_query q fs = Inr sqlv \<and> dataCloudApi_query ctx sqlv = Inl e"
    using that body by (simp add: bind_res_def)
  have 3: "fst (executeQuery_try env q fs s) = Inl e"
    if "resolve_query q fs = Inr sqlv \<and> dataCloudApi_query ctx sqlv = Inr response
          \<and> js_get response ''data'' = Inr d
          \<and> transform q (if truthy d then d else JArr []) = Inl e"
    using that body by (simp add: bind_res_def)
  from 1 2 3 caught fallbackQuery_cases [of q] executeQuery_resolves [of env q arg s]
  show ?thesis by blast
qed

theorem local_failures_enveloped_witness:
  "fst (getDataCloudContext boom_env (new_service ''dc'')) = Inr boom_context
   \<and> resolve_query mockQueryObjectWithBuildQuery (JObj []) =
       Inr (JStr ''SELECT * FROM TestTable WHERE 1=1'')
   \<and> dataCloudApi_query boom_context (JStr ''SELECT * FROM TestTable WHERE 1=1'') =
       Inl (Error ''boom'')
   \<and> fst (executeQuery boom_env mockQueryObjectWithBuildQuery JUndefined (new_service ''dc'')) =
       Inr (failure_envelope ''boom'' (JStr ''Query build failed'') (JObj []))"
proof -
  have h1: "fst (getDataCloudContext boom_env (new_service ''dc'')) = Inr boom_context"
    by (simp add: getDataCloudContext_def boom_env_def new_service_def log_info_def Let_def)
  have h2: "JObj [] = (if JUndefined = JUndefined then JObj [] else JUndefined)"
    by simp
  have h3: "resolve_query mockQueryObjectWithBuildQuery (JObj []) =
              Inr (JStr ''SELECT * FROM TestTable WHERE 1=1'')"
    by (simp add: resolve_query_def mockQueryObjectWithBuildQuery_def mock_buildQuery_def
        bind_res_def own_prop_def)
  have h4: "dataCloudApi_query boom_context (JStr ''SELECT * FROM TestTable WHERE 1=1'') =
              Inl (Error ''boom'')"
    by (simp add: boom_context_def)
  have fb: "fallbackQuery mockQueryObjectWithBuildQuery = JStr ''Query build failed''"
    by (simp add: fallbackQuery_def mockQueryObjectWithBuildQuery_def mock_buildQuery_def
        bind_res_def)
  from local_failures_enveloped
         [OF h1 h2, of mockQueryObjectWithBuildQuery "Error ''boom''"
            "JStr ''SELECT * FROM TestTable WHERE 1=1''"]
       h1 h3 h4 fb
  show ?thesis by simp
qed

text \<open>
  Claim C10: for a query object with neither a truthy \<^verbatim>\<open>sql\<close> nor a
  \<^verbatim>\<open>buildQuery\<close> function the fallback computation assigns nothing and throws
  nothing, so \<^verbatim>\<open>executeQuery\<close> resolves to the failure envelope whose
  \<^verbatim>\<open>query\<close> is \<^verbatim>\<open>undefined\<close>, not \<^verbatim>\<open>Query build failed\<close>; with the context at
  hand its message is that of the error thrown by the query resolution.
\<close>

theorem undefined_fallback_query:
  assumes "buildQuery q = None" and "\<not> truthy (sql q)"
    and "fs = (if arg = JUndefined then JObj [] else arg)"
  shows "fallbackQuery q = JUndefined
       \<and> (\<exists>m. fst (executeQuery env q arg s) = Inr (failure_envelope m JUndefined fs))
       \<and> (fst (getDataCloudContext env s) = Inr ctx \<longrightarrow>
            fst (executeQuery env q arg s) =
              Inr (failure_envelope
                     ''Query object must have either sql property or buildQuery method''
                     JUndefined fs))
       \<and> js_get (failure_envelope m' JUndefined fs) ''query'' = Inr JUndefined
       \<and> JUndefined \<noteq> JStr ''Query build failed''"
proof -
  have fb: "fallbackQuery q = JUndefined"
    using assms by (simp add: fallbackQuery_def)
  have res: "resolve_query q fs =
               Inl (Error ''Query object must have either sql property or buildQuery method'')"
    using assms by (simp add: resolve_query_def)
  have with_ctx: "fst (executeQuery env q arg s) =
              Inr (failure_envelope
                     ''Query object must have either sql property or buildQuery method''
                     JUndefined fs)"
    if c: "fst (getDataCloudContext env s) = Inr c" for c
  proof -
    from executeQuery_try_with_context [OF c, of q fs] res
    have "fst (executeQuery_try env q fs s) =
            Inl (Error ''Query object must have either sql property or buildQuery method'')"
      by (simp add: bind_res_def)
    with executeQuery_caught [of env q arg s] assms(3) fb show ?thesis by simp
  qed
  have ex: "\<exists>m. fst (executeQuery env q arg s) = Inr (failure_envelope m JUndefined fs)"
  proof (cases "fst (getDataCloudContext env s)")
    case (Inl e)
    then have "fst (executeQuery_try env q fs s) = Inl e"
      by (rule executeQuery_try_auth_rejected)
    with executeQuery_caught [of env q arg s e] assms(3) fb show ?thesis by auto
  next
    case (Inr c)
    then show ?thesis using with_ctx by blast
  qed
  have "js_get (failure_envelope m' JUndefined fs) ''query'' = Inr JUndefined"
    by (simp add: failure_envelope_def own_prop_def)
  with fb ex with_ctx show ?thesis by blast
qed

theorem undefined_fallback_query_witness:
  "buildQuery bare_query_object = None \<and> \<not> truthy (sql bare_query_object)
   \<and> fst (executeQuery mock_env bare_query_object (JObj [(''name'', JStr ''x'')])
            (new_service ''dc'')) =
       Inr (JObj [(''success'', JBool False),
                  (''error'', JStr ''Failed to execute Data Cloud query''),
                  (''message'',
                     JStr ''Query object must have either sql property or buildQuery method''),
                  (''query'', JUndefined),
                  (''filters'', JObj [(''name'', JStr ''x'')])])"
proof -
  have h1: "buildQuery bare_query_object = None" and h2: "\<not> truthy (sql bare_query_object)"
    by (simp_all add: bare_query_object_def)
  have h3: "JObj [(''name'', JStr ''x'')] =
              (if JObj [(''name'', JStr ''x'')] = JUndefined then JObj []
               else JObj [(''name'', JStr ''x'')])"
    by simp
  have c: "fst (getDataCloudContext mock_env (new_service ''dc'')) = Inr mock_context"
    by (simp add: getDataCloudContext_def mock_env_def new_service_def log_info_def Let_def)
  from undefined_fallback_query [OF h1 h2 h3, of mock_env "new_service ''dc''" mock_context]
       c h1 h2
  show ?thesis by (simp add: failure_envelope_def)
qed

section \<open>The success envelope\<close>

lemma executeQuery_try_success_shape:
  assumes "fst (executeQuery_try env q fs s) = Inr r"
  shows "\<exists>records total sqlv.
           r = JObj [(''success'', JBool True), (''records'', records),
                     (''metadata'', JObj [(''totalRecords'', total), (''query'', sqlv),
                                          (''filters'', fs), (''executedAt'', JStr (now env))])]
           \<and> js_get records ''length'' = Inr total"
proof (cases "fst (getDataCloudContext env s)")
  case (Inl e)
  with assms executeQuery_try_auth_rejected [of env s e q fs] show ?thesis by simp
next
  case (Inr ctx)
  from assms executeQuery_try_with_context [OF Inr, of q fs]
  show ?thesis
    by (auto simp: bind_res_def split: sum.splits)
qed

lemma executeQuery_success_shape:
  assumes "fst (executeQuery env q arg s) = Inr r" and "js_get r ''success'' = Inr (JBool True)"
  shows "\<exists>records total sqlv.
           r = JObj [(''success'', JBool True), (''records'', records),
                     (''metadata'', JObj [(''totalRecords'', total), (''query'', sqlv),
                                          (''filters'', if arg = JUndefined then JObj [] else arg),
                                          (''executedAt'', JStr (now env))])]
           \<and> js_get records ''length'' = Inr total"
proof (cases "fst (executeQuery_try env q (if arg = JUndefined then JObj [] else arg) s)")
  case (Inl e)
  from executeQuery_caught [OF Inl] assms show ?thesis
    by (simp add: failure_envelope_def own_prop_def)
next
  case (Inr r')
  from executeQuery_passed [OF Inr] assms(1) have "r' = r" by simp
  with Inr show ?thesis by (auto dest: executeQuery_try_success_shape)
qed

lemma executeRawQuery_success_shape:
  assumes "fst (executeRawQuery env t f s) = Inr r" and "js_get r ''success'' = Inr (JBool True)"
  shows "\<exists>records total.
           r = JObj [(''success'', JBool True), (''records'', records),
                     (''metadata'', JObj [(''totalRecords'', total), (''query'', t),
                                          (''executedAt'', JStr (now env))])]
           \<and> js_get records ''length'' = Inr total"
  using assms
  by (cases "getDataCloudContext env s")
     (auto simp: executeRawQuery_def executeRawQuery_try_def bind_res_def Let_def own_prop_def
        split: sum.splits option.splits)

text \<open>
  Claim C7: in every success envelope the length of \<^verbatim>\<open>records\<close> is
  \<^verbatim>\<open>metadata.totalRecords\<close> (for \<^verbatim>\<open>executeQuery\<close>, \<^verbatim>\<open>executeQueryWithFilters\<close>
  and \<^verbatim>\<open>executeRawQuery\<close>); the \<^verbatim>\<open>metadata.filters\<close> of \<^verbatim>\<open>executeQuery\<close> are
  the filters it was given, and those of \<^verbatim>\<open>executeQueryWithFilters\<close> are the result
  of \<^verbatim>\<open>cleanFilters\<close> on the raw argument, an object none of whose values is
  \<^verbatim>\<open>undefined\<close>, \<^verbatim>\<open>null\<close> or the empty string.
\<close>

theorem success_envelope_invariants:
  "(fst (executeQuery env q arg s) = Inr r \<and> js_get r ''success'' = Inr (JBool True) \<longrightarrow>
      (\<exists>records total sqlv.
          r = JObj [(''success'', JBool True), (''records'', records),
                    (''metadata'', JObj [(''totalRecords'', total), (''query'', sqlv),
                                         (''filters'', if arg = JUndefined then JObj [] else arg),
                                         (''executedAt'', JStr (now env))])]
          \<and> js_get records ''length'' = Inr total))
   \<and> (fst (executeQueryWithFilters env q raw s) = Inr r'
        \<and> js_get r' ''success'' = Inr (JBool True) \<longrightarrow>
      (\<exists>records total sqlv cleaned.
          r' = JObj [(''success'', JBool True), (''records'', records),
                     (''metadata'', JObj [(''totalRecords'', total), (''query'', sqlv),
                                          (''filters'', JObj cleaned),
                                          (''executedAt'', JStr (now env))])]
          \<and> js_get records ''length'' = Inr total
          \<and> cleanFilters (if raw = JUndefined then JObj [] else raw) = Inr (JObj cleaned)
          \<and> (\<forall>kv\<in>set cleaned. snd kv \<noteq> JUndefined \<and> snd kv \<noteq> JNull \<and> snd kv \<noteq> JStr [])))
   \<and> (fst (executeRawQuery env t f s) = Inr r''
        \<and> js_get r'' ''success'' = Inr (JBool True) \<longrightarrow>
      (\<exists>records total.
          r'' = JObj [(''success'', JBool True), (''records'', records),
                      (''metadata'', JObj [(''totalRecords'', total), (''query'', t),
                                           (''executedAt'', JStr (now env))])]
          \<and> js_get records ''length'' = Inr total))"
proof (intro conjI impI)
  assume "fst (executeQuery env q arg s) = Inr r \<and> js_get r ''success'' = Inr (JBool True)"
  then show "\<exists>records total sqlv.
          r = JObj [(''success'', JBool True), (''records'', records),
                    (''metadata'', JObj [(''totalRecords'', total), (''query'', sqlv),
                                         (''filters'', if arg = JUndefined then JObj [] else arg),
                                         (''executedAt'', JStr (now env))])]
          \<and> js_get records ''length'' = Inr total"
    using executeQuery_success_shape by blast
next
  assume "fst (executeRawQuery env t f s) = Inr r'' \<and> js_get r'' ''success'' = Inr (JBool True)"
  then show "\<exists>records total.
          r'' = JObj [(''success'', JBool True), (''records'', records),
                      (''metadata'', JObj [(''totalRecords'', total), (''query'', t),
                                           (''executedAt'', JStr (now env))])]
          \<and> js_get records ''length'' = Inr total"
    using executeRawQuery_success_shape by blast
next
  assume a: "fst (executeQueryWithFilters env q raw s) = Inr r'
             \<and> js_get r' ''success'' = Inr (JBool True)"
  let ?raw = "if raw = JUndefined then JObj [] else raw"
  show "\<exists>records total sqlv cleaned.
          r' = JObj [(''success'', JBool True), (''records'', records),
                     (''metadata'', JObj [(''totalRecords'', total), (''query'', sqlv),
                                          (''filters'', JObj cleaned),
                                          (''executedAt'', JStr (now env))])]
          \<and> js_get records ''length'' = Inr total
          \<and> cleanFilters (if raw = JUndefined then JObj [] else raw) = Inr (JObj cleaned)
          \<and> (\<forall>kv\<in>set cleaned. snd kv \<noteq> JUndefined \<and> snd kv \<noteq> JNull \<and> snd kv \<noteq> JStr [])"
  proof (cases "cleanFilters ?raw")
    case (Inl e)
    then have "fst (executeQueryWithFilters env q raw s) = Inl e"
      by (simp add: executeQueryWithFilters_def Let_def)
    with a show ?thesis by simp
  next
    case (Inr c)
    then obtain cleaned where c: "c = JObj cleaned"
      using cleanFilters_object by blast
    from Inr c have cf: "cleanFilters ?raw = Inr (JObj cleaned)" by simp
    from executeQueryWithFilters_cleaned [OF cf, of env q s] a
    have "fst (executeQuery env q (JObj cleaned) s) = Inr r'" by simp
    with a obtain records total sqlv where
      "r' = JObj [(''success'', JBool True), (''records'', records),
                  (''metadata'', JObj [(''totalRecords'', total), (''query'', sqlv),
                                       (''filters'', JObj cleaned),
                                       (''executedAt'', JStr (now env))])]"
      and "js_get records ''length'' = Inr total"
      using executeQuery_success_shape [of env q "JObj cleaned" s r'] by auto
    with cf cleanFilters_values [OF cf] show ?thesis by blast
  qed
qed

text \<open>
  The witness is the first \<^verbatim>\<open>executeQueryWithFilters\<close> test of the repository: raw
  filters with an empty string, a \<^verbatim>\<open>null\<close> and an \<^verbatim>\<open>undefined\<close>, of which the
  envelope reports \<^verbatim>\<open>{name: 'TestName'}\<close> only.
\<close>

theorem success_envelope_invariants_witness:
  "fst (executeQueryWithFilters mock_env mockQueryObjectWithBuildQuery
          (JObj [(''name'', JStr ''TestName''), (''type'', JStr []), (''category'', JNull),
                 (''status'', JUndefined)])
          (new_service ''test-connection''))
     = Inr (JObj [(''success'', JBool True),
                  (''records'', JArr [JObj [(''id'', JStr ''1''), (''name'', JStr ''Test'')]]),
                  (''metadata'',
                     JObj [(''totalRecords'', JNum 1),
                           (''query'', JStr (''SELECT * FROM TestTable WHERE 1=1 AND Name = ''
                                             @ [SQ] @ ''TestName'' @ [SQ])),
                           (''filters'', JObj [(''name'', JStr ''TestName'')]),
                           (''executedAt'', JStr ''2025-01-01T00:00:00.000Z'')])])
   \<and> js_get (JArr [JObj [(''id'', JStr ''1''), (''name'', JStr ''Test'')]]) ''length''
       = Inr (JNum 1)
   \<and> cleanFilters (JObj [(''name'', JStr ''TestName''), (''type'', JStr []), (''category'', JNull),
                          (''status'', JUndefined)])
       = Inr (JObj [(''name'', JStr ''TestName'')])"
proof -
  let ?raw = "JObj [(''name'', JStr ''TestName''), (''type'', JStr []), (''category'', JNull),
                    (''status'', JUndefined)]"
  let ?r = "JObj [(''success'', JBool True),
                  (''records'', JArr [JObj [(''id'', JStr ''1''), (''name'', JStr ''Test'')]]),
                  (''metadata'',
                     JObj [(''totalRecords'', JNum 1),
                           (''query'', JStr (''SELECT * FROM TestTable WHERE 1=1 AND Name = ''
                                             @ [SQ] @ ''TestName'' @ [SQ])),
                           (''filters'', JObj [(''name'', JStr ''TestName'')]),
                           (''executedAt'', JStr ''2025-01-01T00:00:00.000Z'')])]"
  have run: "fst (executeQueryWithFilters mock_env mockQueryObjectWithBuildQuery ?raw
                    (new_service ''test-connection'')) = Inr ?r"
    by (simp add: executeQueryWithFilters_def cleanFilters_def obj_set_def executeQuery_def
        executeQuery_try_def getDataCloudContext_def resolve_query_def mock_env_def mock_context_def
        mockQueryObjectWithBuildQuery_def mock_buildQuery_def mock_record_def js_map_def
        new_service_def log_info_def bind_res_def own_prop_def Let_def)
  have ok: "js_get ?r ''success'' = Inr (JBool True)"
    by (simp add: own_prop_def)
  from success_envelope_invariants
         [of mock_env mockQueryObjectWithBuildQuery JUndefined "new_service ''test-connection''"
             JUndefined ?raw ?r JUndefined None JUndefined]
       run ok
  obtain records total cleaned where
    "?r = JObj [(''success'', JBool True), (''records'', records),
                (''metadata'',
                   JObj [(''totalRecords'', total),
                         (''query'', JStr (''SELECT * FROM TestTable WHERE 1=1 AND Name = ''
                                           @ [SQ] @ ''TestName'' @ [SQ])),
                         (''filters'', JObj cleaned),
                         (''executedAt'', JStr (now mock_env))])]"
    and "js_get records ''length'' = Inr total"
    and "cleanFilters ?raw = Inr (JObj cleaned)"
    by auto
  then have "js_get (JArr [JObj [(''id'', JStr ''1''), (''name'', JStr ''Test'')]]) ''length''
               = Inr (JNum 1)"
    and "cleanFilters ?raw = Inr (JObj [(''name'', JStr ''TestName'')])"
    by simp_all
  with run show ?thesis by simp
qed

end
